theory Spec2Isabelle
  imports Complex_Main "HOL-Library.Multiset"
begin

section \<open>Values and catalog rows\<close>

text \<open>
  The script \<^verbatim>\<open>scripts/drop_columns.py\<close> talks to SQLite through Python's
  \<^verbatim>\<open>sqlite3\<close> module. A value read from or bound into a statement is
  \<^verbatim>\<open>None\<close>, an \<^verbatim>\<open>int\<close>, a \<^verbatim>\<open>float\<close> or a \<^verbatim>\<open>str\<close>
  (NULL, INTEGER, REAL, TEXT). REAL values are kept as rationals: the model agrees with
  IEEE doubles wherever every intermediate value is exactly representable, which is the
  case for the small dyadic numbers used in the examples below. BLOB values are left out.

  A table is its catalog rows and its data rows in scan order; a database is a list of
  named tables. Of SQLite's behaviour the model keeps what the script's statements
  depend on: the order of values (NULL, then numbers, then text), NULL in comparisons,
  \<^verbatim>\<open>NOT NULL\<close> and \<^verbatim>\<open>PRIMARY KEY\<close> checks on insertion, the errors of
  \<^verbatim>\<open>CREATE TABLE\<close>, and transactions.

  The model has limits, and the theorems below say where they matter. The script writes
  table names, column names, types and defaults into its statements unquoted; the model
  takes a name to denote the column of that name, which is what SQLite does for the
  plain names described by \<open>plain_identifier\<close> and \<open>plain_column\<close> further down
  (a name such as \<^verbatim>\<open>address line\<close> is read by SQLite as a column and an alias).
  Type affinity, row-id aliasing (an \<^verbatim>\<open>INTEGER PRIMARY KEY\<close> column replaces NULL
  by a generated key and refuses values that are not integers), indexes and triggers
  are not modelled, and rows are listed in the order of insertion.
\<close>

datatype sql_value = SqlNull | SqlInt int | SqlReal rat | SqlText string

text \<open>
  One row of \<^verbatim>\<open>PRAGMA table_info(t)\<close>: the name (index 1), the declared type
  (index 2), the not-null flag (index 3), the default value (index 4, \<^verbatim>\<open>None\<close> when
  absent) and the primary-key entry (index 5: 0 for a column outside the primary key,
  otherwise the 1-based position of the column inside the key).
\<close>

record column_info =
  col_name :: string
  col_type :: string
  notnull :: nat
  dflt_value :: "string option"
  pk :: nat

record table =
  columns :: "column_info list"
  rows :: "sql_value list list"

type_synonym catalog = "(string \<times> table) list"

datatype py_exception =
  OperationalError | IntegrityError | TypeError | IndexError | OverflowError

section \<open>The pure steps of \<^verbatim>\<open>drop_unused_columns\<close>\<close>

text \<open>\<^verbatim>\<open>get_current_columns\<close>: the names of the table's columns, in catalog order.\<close>

definition get_current_columns :: "table \<Rightarrow> string list" where
  "get_current_columns t = map col_name (columns t)"

text \<open>\<^verbatim>\<open>count_rows\<close>: \<^verbatim>\<open>SELECT COUNT(*) FROM t\<close>.\<close>

definition count_rows :: "table \<Rightarrow> nat" where
  "count_rows t = length (rows t)"

text \<open>\<^verbatim>\<open>valid_columns = [col for col in columns_to_keep if col in current_columns]\<close>\<close>

definition valid_columns :: "string list \<Rightarrow> string list \<Rightarrow> string list" where
  "valid_columns current_columns columns_to_keep =
     filter (\<lambda>col. col \<in> set current_columns) columns_to_keep"

text \<open>\<^verbatim>\<open>columns_to_drop = [col for col in current_columns if col not in columns_to_keep]\<close>\<close>

definition columns_to_drop :: "string list \<Rightarrow> string list \<Rightarrow> string list" where
  "columns_to_drop current_columns columns_to_keep =
     filter (\<lambda>col. col \<notin> set columns_to_keep) current_columns"

text \<open>
  \<^verbatim>\<open>str.strip()\<close> removes leading and trailing white space; on ASCII text these
  are the characters 9 to 13, 28 to 32.
\<close>

definition py_isspace :: "char \<Rightarrow> bool" where
  "py_isspace c = (let n = (of_char c :: nat) in (9 \<le> n \<and> n \<le> 13) \<or> (28 \<le> n \<and> n \<le> 32))"

definition py_strip :: "string \<Rightarrow> string" where
  "py_strip s = rev (dropWhile py_isspace (rev (dropWhile py_isspace s)))"

text \<open>
  The body of the loop that renders one kept column (lines 103 to 109):
  \<^verbatim>\<open>f"{col_name} {col_type} {not_null} {default_val} {is_pk}".strip()\<close>.
\<close>

definition column_def :: "column_info \<Rightarrow> string" where
  "column_def row =
     (let not_null = (if notnull row = 1 then ''NOT NULL'' else '''');
          default_val = (case dflt_value row of Some d \<Rightarrow> ''DEFAULT '' @ d | None \<Rightarrow> '''');
          is_pk = (if pk row = 1 then ''PRIMARY KEY'' else '''')
      in py_strip (col_name row @ '' '' @ col_type row @ '' '' @ not_null @ '' ''
                   @ default_val @ '' '' @ is_pk))"

text \<open>
  \<^verbatim>\<open>table_info = {row[1]: row for row in cursor.fetchall()}\<close>: a later row with the
  same name would replace an earlier one.
\<close>

definition table_info :: "table \<Rightarrow> string \<rightharpoonup> column_info" where
  "table_info t = map_of (rev (map (\<lambda>row. (col_name row, row)) (columns t)))"

text \<open>
  The catalog rows of the kept columns, in the order of \<^verbatim>\<open>valid_columns\<close>
  (\<^verbatim>\<open>for col in valid_columns: if col in table_info: ...\<close>), and the rendered
  definitions joined into the \<^verbatim>\<open>CREATE TABLE\<close> statement.
\<close>

definition kept_rows :: "table \<Rightarrow> string list \<Rightarrow> column_info list" where
  "kept_rows t valid = List.map_filter (table_info t) valid"

definition column_defs :: "table \<Rightarrow> string list \<Rightarrow> string list" where
  "column_defs t valid = map column_def (kept_rows t valid)"

text \<open>\<^verbatim>\<open>primary_key_cols = [row[1] for row in cursor.fetchall() if row[5] > 0]\<close>\<close>

definition primary_key_cols :: "table \<Rightarrow> string list" where
  "primary_key_cols t = map col_name (filter (\<lambda>row. pk row > 0) (columns t))"

text \<open>
  Line 127:
  \<^verbatim>\<open>primary_key_cols[0] if primary_key_cols and primary_key_cols[0] in valid_columns else valid_columns[0]\<close>.
  Indexing an empty \<^verbatim>\<open>valid_columns\<close> raises \<^verbatim>\<open>IndexError\<close>.
\<close>

definition batch_column :: "string list \<Rightarrow> string list \<Rightarrow> py_exception + string" where
  "batch_column pk_cols valid =
     (case pk_cols of
        p # _ \<Rightarrow> if p \<in> set valid then Inr p
                 else (case valid of [] \<Rightarrow> Inl IndexError | v # _ \<Rightarrow> Inr v)
      | [] \<Rightarrow> (case valid of [] \<Rightarrow> Inl IndexError | v # _ \<Rightarrow> Inr v))"

section \<open>Python comparison and arithmetic on fetched values\<close>

fun num_of :: "sql_value \<Rightarrow> rat option" where
  "num_of (SqlInt i) = Some (of_int i)"
| "num_of (SqlReal r) = Some r"
| "num_of SqlNull = None"
| "num_of (SqlText s) = None"

text \<open>Text is compared byte by byte, a proper prefix first.\<close>

fun text_le :: "string \<Rightarrow> string \<Rightarrow> bool" where
  "text_le [] ys = True"
| "text_le (x # xs) [] = False"
| "text_le (x # xs) (y # ys) =
     ((of_char x :: nat) < of_char y \<or> (x = y \<and> text_le xs ys))"

text \<open>
  \<^verbatim>\<open>current_min <= max_id\<close>: numbers compare by value, two strings compare as
  text, and every other pairing raises \<^verbatim>\<open>TypeError\<close>.
\<close>

definition py_le :: "sql_value \<Rightarrow> sql_value \<Rightarrow> py_exception + bool" where
  "py_le a b =
     (case (num_of a, num_of b) of
        (Some x, Some y) \<Rightarrow> Inr (x \<le> y)
      | (Some x, None) \<Rightarrow> Inl TypeError
      | (None, Some y) \<Rightarrow> Inl TypeError
      | (None, None) \<Rightarrow>
          (case (a, b) of
             (SqlText s, SqlText t) \<Rightarrow> Inr (text_le s t)
           | _ \<Rightarrow> Inl TypeError))"

text \<open>
  \<^verbatim>\<open>x + k\<close> and \<^verbatim>\<open>x - k\<close> for an integer \<^verbatim>\<open>k\<close>. On integers the
  result is exact, as in Python. On REAL values the model computes with rationals and
  does not round: it agrees with Python's \<^verbatim>\<open>float\<close> only where the operands and
  the result are exactly representable as doubles.
\<close>

fun py_add :: "sql_value \<Rightarrow> int \<Rightarrow> py_exception + sql_value" where
  "py_add (SqlInt a) k = Inr (SqlInt (a + k))"
| "py_add (SqlReal r) k = Inr (SqlReal (r + of_int k))"
| "py_add SqlNull k = Inl TypeError"
| "py_add (SqlText s) k = Inl TypeError"

fun py_sub :: "sql_value \<Rightarrow> int \<Rightarrow> py_exception + sql_value" where
  "py_sub (SqlInt a) k = Inr (SqlInt (a - k))"
| "py_sub (SqlReal r) k = Inr (SqlReal (r - of_int k))"
| "py_sub SqlNull k = Inl TypeError"
| "py_sub (SqlText s) k = Inl TypeError"

section \<open>The statements the script issues\<close>

text \<open>
  SQLite's comparison: a comparison with NULL is NULL (here \<open>None\<close>), numbers compare
  by value, every number is below every text, and text compares byte by byte.
\<close>

definition sql_le :: "sql_value \<Rightarrow> sql_value \<Rightarrow> bool option" where
  "sql_le a b =
     (if a = SqlNull then None
      else if b = SqlNull then None
      else Some (case (num_of a, num_of b) of
                   (Some x, Some y) \<Rightarrow> x \<le> y
                 | (Some x, None) \<Rightarrow> True
                 | (None, Some y) \<Rightarrow> False
                 | (None, None) \<Rightarrow>
                     (case (a, b) of (SqlText s, SqlText t) \<Rightarrow> text_le s t | _ \<Rightarrow> False)))"

text \<open>\<^verbatim>\<open>WHERE c >= ? AND c <= ?\<close> selects a row only when both comparisons are true.\<close>

definition in_range :: "sql_value \<Rightarrow> sql_value \<Rightarrow> sql_value \<Rightarrow> bool" where
  "in_range v lo hi = (sql_le lo v = Some True \<and> sql_le v hi = Some True)"

text \<open>\<^verbatim>\<open>MIN(c)\<close> and \<^verbatim>\<open>MAX(c)\<close> skip NULL and are NULL when nothing is left.\<close>

definition sql_min :: "sql_value list \<Rightarrow> sql_value" where
  "sql_min vs =
     (case filter (\<lambda>v. v \<noteq> SqlNull) vs of
        [] \<Rightarrow> SqlNull
      | x # xs \<Rightarrow> fold (\<lambda>v m. if sql_le m v = Some True then m else v) xs x)"

definition sql_max :: "sql_value list \<Rightarrow> sql_value" where
  "sql_max vs =
     (case filter (\<lambda>v. v \<noteq> SqlNull) vs of
        [] \<Rightarrow> SqlNull
      | x # xs \<Rightarrow> fold (\<lambda>v m. if sql_le v m = Some True then m else v) xs x)"

text \<open>The value a row holds in a named column (rows are aligned with the columns).\<close>

definition cell :: "table \<Rightarrow> sql_value list \<Rightarrow> string \<Rightarrow> sql_value" where
  "cell t r c =
     (case map_of (zip (map col_name (columns t)) r) c of Some v \<Rightarrow> v | None \<Rightarrow> SqlNull)"

definition project :: "table \<Rightarrow> string list \<Rightarrow> sql_value list \<Rightarrow> sql_value list" where
  "project t cols r = map (cell t r) cols"

text \<open>
  \<^verbatim>\<open>SELECT cols FROM t WHERE c >= lo AND c <= hi\<close>. Each name is looked up as it
  is written, and the rows come in the order in which the table lists them; SQLite may
  return them in the order of an index on \<open>c\<close> instead.
\<close>

definition select_batch ::
  "table \<Rightarrow> string list \<Rightarrow> string \<Rightarrow> sql_value \<Rightarrow> sql_value \<Rightarrow> sql_value list list" where
  "select_batch src cols c lo hi =
     map (project src cols) (filter (\<lambda>r. in_range (cell src r c) lo hi) (rows src))"

text \<open>\<^verbatim>\<open>SELECT MIN(c), MAX(c) FROM t\<close>\<close>

definition select_min_max :: "catalog \<Rightarrow> string \<Rightarrow> string \<Rightarrow> py_exception + (sql_value \<times> sql_value)" where
  "select_min_max cat tn c =
     (case map_of cat tn of
        None \<Rightarrow> Inl OperationalError
      | Some t \<Rightarrow> (let vs = map (\<lambda>r. cell t r c) (rows t) in Inr (sql_min vs, sql_max vs)))"

text \<open>
  The catalog entry that SQLite records for a column created from the rendered
  definition: the name, type and default are carried over, \<^verbatim>\<open>NOT NULL\<close> was written
  exactly when index 3 was 1, and \<^verbatim>\<open>PRIMARY KEY\<close> exactly when index 5 was 1.
  The rendered text is not parsed again: this is the entry SQLite records when the name
  and the type are plain identifiers and the default is a plain literal
  (\<open>plain_column\<close> below).
\<close>

definition created_column :: "column_info \<Rightarrow> column_info" where
  "created_column row =
     \<lparr>col_name = col_name row, col_type = col_type row,
      notnull = (if notnull row = 1 then 1 else 0),
      dflt_value = dflt_value row,
      pk = (if pk row = 1 then 1 else 0)\<rparr>"

text \<open>
  \<^verbatim>\<open>CREATE TABLE n (defs)\<close> is refused for an empty column list (a syntax error),
  a repeated column name, more than one \<^verbatim>\<open>PRIMARY KEY\<close> column constraint, or a table
  name already in use.
\<close>

definition sql_create_table :: "catalog \<Rightarrow> string \<Rightarrow> column_info list \<Rightarrow> py_exception + catalog" where
  "sql_create_table cat n cols =
     (if cols \<noteq> [] \<and> distinct (map col_name cols)
         \<and> length (filter (\<lambda>c. pk c > 0) cols) \<le> 1 \<and> map_of cat n = None
      then Inr (cat @ [(n, \<lparr>columns = cols, rows = []\<rparr>)])
      else Inl OperationalError)"

text \<open>
  The constraints checked when a row enters a table: no NULL in a \<^verbatim>\<open>NOT NULL\<close>
  column, and no second row with the same primary key (keys holding NULL never collide;
  numbers are the same key when they have the same value). A row is stored as it is
  given and after the rows already present.
\<close>

definition pk_key :: "table \<Rightarrow> sql_value list \<Rightarrow> sql_value list" where
  "pk_key t r = map snd (filter (\<lambda>(c, v). pk c > 0) (zip (columns t) r))"

definition sql_same :: "sql_value \<Rightarrow> sql_value \<Rightarrow> bool" where
  "sql_same a b =
     (case (num_of a, num_of b) of (Some x, Some y) \<Rightarrow> x = y | _ \<Rightarrow> a = b)"

definition violates :: "table \<Rightarrow> sql_value list \<Rightarrow> bool" where
  "violates t r =
     (list_ex (\<lambda>(c, v). notnull c = 1 \<and> v = SqlNull) (zip (columns t) r)
      \<or> (let k = pk_key t r
          in k \<noteq> [] \<and> SqlNull \<notin> set k
             \<and> list_ex (\<lambda>r'. list_all2 sql_same k (pk_key t r')) (rows t)))"

fun insert_rows :: "table \<Rightarrow> sql_value list list \<Rightarrow> py_exception + table" where
  "insert_rows t [] = Inr t"
| "insert_rows t (r # rs) =
     (if violates t r then Inl IntegrityError
      else insert_rows (t\<lparr>rows := rows t @ [r]\<rparr>) rs)"

definition update_table :: "catalog \<Rightarrow> string \<Rightarrow> table \<Rightarrow> catalog" where
  "update_table cat n t = map (\<lambda>(k, v). if k = n then (k, t) else (k, v)) cat"

text \<open>
  \<^verbatim>\<open>INSERT INTO target SELECT cols FROM source WHERE c >= lo AND c <= hi\<close>: the
  statement inserts all selected rows or, when one is refused, none; it returns the
  number of rows inserted (\<^verbatim>\<open>cursor.rowcount\<close>).
\<close>

definition sql_insert_select ::
  "catalog \<Rightarrow> string \<Rightarrow> string \<Rightarrow> string list \<Rightarrow> string \<Rightarrow> sql_value \<Rightarrow> sql_value
     \<Rightarrow> py_exception + (catalog \<times> nat)" where
  "sql_insert_select cat target source cols c lo hi =
     (case map_of cat target of
        None \<Rightarrow> Inl OperationalError
      | Some tgt \<Rightarrow>
          (case map_of cat source of
             None \<Rightarrow> Inl OperationalError
           | Some src \<Rightarrow>
               if length cols = length (columns tgt) then
                 (case insert_rows tgt (select_batch src cols c lo hi) of
                    Inl e \<Rightarrow> Inl e
                  | Inr tgt' \<Rightarrow>
                      Inr (update_table cat target tgt',
                           length (select_batch src cols c lo hi)))
               else Inl OperationalError))"

text \<open>\<^verbatim>\<open>DROP TABLE n\<close> and \<^verbatim>\<open>ALTER TABLE old RENAME TO new\<close>\<close>

definition sql_drop_table :: "catalog \<Rightarrow> string \<Rightarrow> py_exception + catalog" where
  "sql_drop_table cat n =
     (case map_of cat n of
        None \<Rightarrow> Inl OperationalError
      | Some t \<Rightarrow> Inr (filter (\<lambda>(k, v). k \<noteq> n) cat))"

definition sql_rename_table :: "catalog \<Rightarrow> string \<Rightarrow> string \<Rightarrow> py_exception + catalog" where
  "sql_rename_table cat old new =
     (if map_of cat old \<noteq> None \<and> map_of cat new = None
      then Inr (map (\<lambda>(k, v). if k = old then (new, v) else (k, v)) cat)
      else Inl OperationalError)"

section \<open>The connection and its transactions\<close>

text \<open>
  A connection holds the committed database and, while a transaction is open, the
  working copy that the transaction has produced so far. A statement executed outside a
  transaction is committed at once.
\<close>

record connection =
  committed :: catalog
  pending :: "catalog option"

definition connect :: "catalog \<Rightarrow> connection" where
  "connect db = \<lparr>committed = db, pending = None\<rparr>"

definition view :: "connection \<Rightarrow> catalog" where
  "view conn = (case pending conn of Some cat \<Rightarrow> cat | None \<Rightarrow> committed conn)"

definition store :: "connection \<Rightarrow> catalog \<Rightarrow> connection" where
  "store conn cat =
     (case pending conn of
        Some old \<Rightarrow> conn\<lparr>pending := Some cat\<rparr>
      | None \<Rightarrow> conn\<lparr>committed := cat\<rparr>)"

text \<open>\<^verbatim>\<open>conn.execute("BEGIN TRANSACTION")\<close>, \<^verbatim>\<open>conn.commit()\<close>, \<^verbatim>\<open>conn.rollback()\<close>\<close>

definition begin_transaction :: "connection \<Rightarrow> py_exception + connection" where
  "begin_transaction conn =
     (case pending conn of
        Some cat \<Rightarrow> Inl OperationalError
      | None \<Rightarrow> Inr (conn\<lparr>pending := Some (committed conn)\<rparr>))"

definition commit :: "connection \<Rightarrow> connection" where
  "commit conn =
     (case pending conn of
        Some cat \<Rightarrow> \<lparr>committed = cat, pending = None\<rparr>
      | None \<Rightarrow> conn)"

definition rollback :: "connection \<Rightarrow> connection" where
  "rollback conn = conn\<lparr>pending := None\<rparr>"

text \<open>Executing a statement that changes the database; a failed statement changes nothing.\<close>

definition execute :: "connection \<Rightarrow> (catalog \<Rightarrow> py_exception + catalog) \<Rightarrow> py_exception + connection" where
  "execute conn stmt =
     (case stmt (view conn) of Inl e \<Rightarrow> Inl e | Inr cat \<Rightarrow> Inr (store conn cat))"

section \<open>The batched copy and the swap\<close>

text \<open>
  A Python \<^verbatim>\<open>int\<close> bound to a statement parameter must fit SQLite's 64-bit INTEGER;
  otherwise \<^verbatim>\<open>cursor.execute\<close> raises \<^verbatim>\<open>OverflowError\<close>.
\<close>

definition bindable :: "sql_value \<Rightarrow> bool" where
  "bindable v = (case v of SqlInt i \<Rightarrow> - (2 ^ 63) \<le> i \<and> i < 2 ^ 63 | _ \<Rightarrow> True)"

text \<open>
  One pass through the body of the \<^verbatim>\<open>while\<close> loop (lines 144 to 173): compute
  \<^verbatim>\<open>current_max\<close>, open a transaction, copy the rows of the range, commit, and
  compute the next lower bound. The result is the connection, the batch's row count and
  the next \<^verbatim>\<open>current_min\<close>, or the exception raised together with the connection as
  it was at that moment.
\<close>

definition batch_step ::
  "connection \<Rightarrow> string \<Rightarrow> string \<Rightarrow> string list \<Rightarrow> string \<Rightarrow> int \<Rightarrow> sql_value
     \<Rightarrow> (py_exception \<times> connection) + (connection \<times> nat \<times> sql_value)" where
  "batch_step conn table_name new_table valid bc batch_size current_min =
     (case py_add current_min batch_size of
        Inl e \<Rightarrow> Inl (e, conn)
      | Inr s \<Rightarrow>
          (case py_sub s 1 of
             Inl e \<Rightarrow> Inl (e, conn)
           | Inr current_max \<Rightarrow>
               (case begin_transaction conn of
                  Inl e \<Rightarrow> Inl (e, conn)
                | Inr c1 \<Rightarrow>
                    if bindable current_min \<and> bindable current_max then
                      (case sql_insert_select (view c1) new_table table_name valid bc
                              current_min current_max of
                         Inl e \<Rightarrow> Inl (e, c1)
                       | Inr (cat, batch_rows) \<Rightarrow>
                           (let c2 = commit (store c1 cat)
                            in case py_add current_max 1 of
                                 Inl e \<Rightarrow> Inl (e, c2)
                               | Inr next_min \<Rightarrow> Inr (c2, batch_rows, next_min)))
                    else Inl (OverflowError, c1))))"

text \<open>
  \<^verbatim>\<open>while current_min <= max_id: ...\<close>. The loop need not end (a batch size of
  zero never advances), so the model returns \<open>None\<close> when the loop does not return.
\<close>

partial_function (option) batch_loop ::
  "connection \<Rightarrow> string \<Rightarrow> string \<Rightarrow> string list \<Rightarrow> string \<Rightarrow> int \<Rightarrow> sql_value
     \<Rightarrow> sql_value \<Rightarrow> nat \<Rightarrow> ((py_exception \<times> connection) + (connection \<times> nat)) option" where
  "batch_loop conn table_name new_table valid bc batch_size current_min max_id processed_rows =
     (case py_le current_min max_id of
        Inl e \<Rightarrow> Some (Inl (e, conn))
      | Inr continue \<Rightarrow>
          if continue then
            (case batch_step conn table_name new_table valid bc batch_size current_min of
               Inl err \<Rightarrow> Some (Inl err)
             | Inr (conn', batch_rows, next_min) \<Rightarrow>
                 batch_loop conn' table_name new_table valid bc batch_size next_min max_id
                   (processed_rows + batch_rows))
          else Some (Inr (conn, processed_rows)))"

declare batch_loop.simps [code]

text \<open>The final transaction (lines 178 to 191): drop the old table, rename the new one.\<close>

definition final_swap ::
  "connection \<Rightarrow> string \<Rightarrow> string \<Rightarrow> (py_exception \<times> connection) + connection" where
  "final_swap conn table_name new_table =
     (case begin_transaction conn of
        Inl e \<Rightarrow> Inl (e, conn)
      | Inr c1 \<Rightarrow>
          (case execute c1 (\<lambda>cat. sql_drop_table cat table_name) of
             Inl e \<Rightarrow> Inl (e, c1)
           | Inr c2 \<Rightarrow>
               (case execute c2 (\<lambda>cat. sql_rename_table cat new_table table_name) of
                  Inl e \<Rightarrow> Inl (e, c2)
                | Inr c3 \<Rightarrow> Inr (commit c3))))"

text \<open>
  The body of the \<^verbatim>\<open>try\<close> block (lines 117 to 196): create the new table, choose the
  batching column, read its smallest and largest value, copy in batches, swap. The
  progress and timing reports (lines 165 to 170 and 193 to 196) are output only and are
  left out; the elapsed time they divide by is taken to be positive.
\<close>

definition migrate ::
  "connection \<Rightarrow> string \<Rightarrow> table \<Rightarrow> string list \<Rightarrow> int
     \<Rightarrow> ((py_exception \<times> connection) + (connection \<times> nat)) option" where
  "migrate conn table_name t valid batch_size =
     (let new_table = table_name @ ''_new'' in
      case execute conn (\<lambda>cat. sql_create_table cat new_table
                                 (map created_column (kept_rows t valid))) of
        Inl e \<Rightarrow> Some (Inl (e, conn))
      | Inr c1 \<Rightarrow>
          (case batch_column (primary_key_cols t) valid of
             Inl e \<Rightarrow> Some (Inl (e, c1))
           | Inr bc \<Rightarrow>
               (case select_min_max (view c1) table_name bc of
                  Inl e \<Rightarrow> Some (Inl (e, c1))
                | Inr (min_id, max_id) \<Rightarrow>
                    (case (if min_id \<noteq> SqlNull \<and> max_id \<noteq> SqlNull
                           then batch_loop c1 table_name new_table valid bc batch_size
                                  min_id max_id 0
                           else Some (Inr (c1, 0))) of
                       None \<Rightarrow> None
                     | Some (Inl err) \<Rightarrow> Some (Inl err)
                     | Some (Inr (c2, processed_rows)) \<Rightarrow>
                         (case final_swap c2 table_name new_table of
                            Inl err \<Rightarrow> Some (Inl err)
                          | Inr c3 \<Rightarrow> Some (Inr (c3, processed_rows)))))))"

section \<open>\<^verbatim>\<open>drop_unused_columns\<close>\<close>

text \<open>
  What a run reports: the message it prints tells the five ways out apart, and the
  function returns \<^verbatim>\<open>True\<close> for \<open>NothingToDrop\<close> and \<open>Migrated\<close> and \<^verbatim>\<open>False\<close>
  otherwise. \<open>database\<close> is the database file as the run leaves it.
\<close>

datatype outcome = BackupFailed | TableNotFound | NothingToDrop | Migrated | Failed py_exception

record run_result =
  outcome :: outcome
  database :: catalog
  processed_rows :: nat

definition success :: "run_result \<Rightarrow> bool" where
  "success r = (case outcome r of NothingToDrop \<Rightarrow> True | Migrated \<Rightarrow> True | _ \<Rightarrow> False)"

text \<open>
  \<open>backup_ok\<close> stands for whether copying the database file succeeds when a backup is
  requested. The \<^verbatim>\<open>except\<close> clause rolls the open transaction back and returns
  \<^verbatim>\<open>False\<close>.
\<close>

definition drop_unused_columns ::
  "catalog \<Rightarrow> string \<Rightarrow> string list \<Rightarrow> int \<Rightarrow> bool \<Rightarrow> bool \<Rightarrow> run_result option" where
  "drop_unused_columns db table_name columns_to_keep batch_size create_backup_file backup_ok =
     (if create_backup_file \<and> \<not> backup_ok
      then Some \<lparr>outcome = BackupFailed, database = db, processed_rows = 0\<rparr>
      else
        (case map_of db table_name of
           None \<Rightarrow> Some \<lparr>outcome = TableNotFound, database = db, processed_rows = 0\<rparr>
         | Some t \<Rightarrow>
             (let current_columns = get_current_columns t;
                  valid = valid_columns current_columns columns_to_keep
              in if columns_to_drop current_columns columns_to_keep = []
                 then Some \<lparr>outcome = NothingToDrop, database = db, processed_rows = 0\<rparr>
                 else
                   (case migrate (connect db) table_name t valid batch_size of
                      None \<Rightarrow> None
                    | Some (Inl (e, conn)) \<Rightarrow>
                        Some \<lparr>outcome = Failed e, database = committed (rollback conn),
                              processed_rows = 0\<rparr>
                    | Some (Inr (conn, n)) \<Rightarrow>
                        Some \<lparr>outcome = Migrated, database = committed conn,
                              processed_rows = n\<rparr>))))"


section \<open>Describing the batches of a run\<close>

text \<open>
  The definitions of this section are not part of the script; they name what a run
  leaves behind, so that the theorems can state it. \<open>nth_bound lo bs k\<close> is the lower
  bound of batch number \<open>k\<close> (counting from 0) when the first is \<open>lo\<close>, and
  \<open>batch_upper\<close> the upper bound that belongs to a lower bound.
\<close>

definition nth_bound :: "sql_value \<Rightarrow> int \<Rightarrow> nat \<Rightarrow> sql_value" where
  "nth_bound lo bs k =
     (case lo of
        SqlInt a \<Rightarrow> SqlInt (a + int k * bs)
      | SqlReal x \<Rightarrow> SqlReal (x + of_int (int k * bs))
      | v \<Rightarrow> v)"

definition batch_upper :: "sql_value \<Rightarrow> int \<Rightarrow> sql_value" where
  "batch_upper lo bs =
     (case lo of
        SqlInt a \<Rightarrow> SqlInt (a + bs - 1)
      | SqlReal x \<Rightarrow> SqlReal (x + of_int bs - 1)
      | v \<Rightarrow> v)"

text \<open>
  The rows that the first \<open>k\<close> batches select, one batch after the other, and the new
  table holding exactly these rows.
\<close>

definition copied :: "table \<Rightarrow> string list \<Rightarrow> string \<Rightarrow> int \<Rightarrow> sql_value \<Rightarrow> nat \<Rightarrow> sql_value list list" where
  "copied t valid bc bs lo k =
     concat (map (\<lambda>j. select_batch t valid bc (nth_bound lo bs j) (batch_upper (nth_bound lo bs j) bs)) [0..<k])"


text \<open>
  The batching column of a run (the empty name when none can be chosen) and the values
  that \<^verbatim>\<open>SELECT MIN(c), MAX(c)\<close> returns for a table.
\<close>

definition the_batch_column :: "table \<Rightarrow> string list \<Rightarrow> string" where
  "the_batch_column t valid =
     (case batch_column (primary_key_cols t) valid of Inr c \<Rightarrow> c | Inl e \<Rightarrow> [])"

definition min_value :: "table \<Rightarrow> string \<Rightarrow> sql_value" where
  "min_value t c = sql_min (map (\<lambda>r. cell t r c) (rows t))"

definition max_value :: "table \<Rightarrow> string \<Rightarrow> sql_value" where
  "max_value t c = sql_max (map (\<lambda>r. cell t r c) (rows t))"




text \<open>
  The choice of the batching column in the words of the specification: the first
  primary-key column that is in the keep set, otherwise the first column of the keep set.
\<close>

definition spec_batch_column :: "string list \<Rightarrow> string list \<Rightarrow> string option" where
  "spec_batch_column pk_cols valid =
     (case filter (\<lambda>p. p \<in> set valid) pk_cols of
        p # ps \<Rightarrow> Some p
      | [] \<Rightarrow> (case valid of [] \<Rightarrow> None | v # vs \<Rightarrow> Some v))"

section \<open>Names that need no quoting\<close>










section \<open>Example tables\<close>

text \<open>
  A table with a single-column integer key whose key values have gaps, a table with a
  two-column key, a table without a key whose first column holds a NULL, and a table
  whose first column holds fractions.
\<close>

definition ex_people :: table where
  "ex_people =
     \<lparr>columns =
        [\<lparr>col_name = ''id'', col_type = ''INTEGER'', notnull = 1, dflt_value = None, pk = 1\<rparr>,
         \<lparr>col_name = ''surname'', col_type = ''TEXT'', notnull = 0, dflt_value = None, pk = 0\<rparr>,
         \<lparr>col_name = ''notes'', col_type = ''TEXT'', notnull = 0, dflt_value = Some ''0'', pk = 0\<rparr>],
      rows =
        [[SqlInt 1, SqlText ''a'', SqlNull],
         [SqlInt 2, SqlText ''b'', SqlNull],
         [SqlInt 5, SqlText ''c'', SqlText ''x'']]\<rparr>"

definition ex_pair :: table where
  "ex_pair =
     \<lparr>columns =
        [\<lparr>col_name = ''a'', col_type = ''INTEGER'', notnull = 1, dflt_value = None, pk = 1\<rparr>,
         \<lparr>col_name = ''b'', col_type = ''INTEGER'', notnull = 1, dflt_value = None, pk = 2\<rparr>,
         \<lparr>col_name = ''c'', col_type = ''TEXT'', notnull = 0, dflt_value = None, pk = 0\<rparr>],
      rows =
        [[SqlInt 1, SqlInt 1, SqlText ''x''],
         [SqlInt 3, SqlInt 1, SqlText ''y''],
         [SqlInt 3, SqlInt 2, SqlText ''z'']]\<rparr>"


definition ex_real :: table where
  "ex_real =
     \<lparr>columns =
        [\<lparr>col_name = ''x'', col_type = ''REAL'', notnull = 0, dflt_value = None, pk = 0\<rparr>,
         \<lparr>col_name = ''y'', col_type = ''TEXT'', notnull = 0, dflt_value = None, pk = 0\<rparr>],
      rows =
        [[SqlReal (1 / 2), SqlText ''p''],
         [SqlReal (5 / 4), SqlText ''q'']]\<rparr>"





definition ex_pair_copying :: connection where
  "ex_pair_copying =
     connect [(''t'', ex_pair),
              (''t_new'', \<lparr>columns = map created_column (kept_rows ex_pair [''c'', ''b'']), rows = []\<rparr>)]"


section \<open>Column-set reconciliation\<close>

text \<open>
  Claim C6. The kept columns are the current columns that are requested (a requested
  name that the table does not have is ignored), the dropped columns are the current
  columns outside the kept ones, and no column is both kept and dropped.
\<close>

theorem keep_drop_sets:
  "set (valid_columns current keep) = set current \<inter> set keep
   \<and> set (columns_to_drop current keep) = set current - set (valid_columns current keep)
   \<and> set (valid_columns current keep) \<inter> set (columns_to_drop current keep) = {}"
  by (auto simp: valid_columns_def columns_to_drop_def)



section \<open>The batching column\<close>

text \<open>
  Claim C8 at a table with a two-column key. In \<open>ex_pair\<close> the key is \<open>(a, b)\<close>, and
  \<open>primary_key_cols\<close> lists both columns. When \<open>c\<close> and \<open>b\<close> are kept, the first
  primary-key column in the keep set is \<open>b\<close>, but the script tests only the first
  entry of \<open>primary_key_cols\<close>, which is \<open>a\<close>, and falls back to the first kept
  column \<open>c\<close>. The values of \<open>c\<close> are text, so the first
  \<^verbatim>\<open>current_min + batch_size\<close> raises \<^verbatim>\<open>TypeError\<close>: the run fails and leaves
  the empty new table behind. The loop run on the kept key column \<open>b\<close> copies all three
  rows.
\<close>

theorem batch_column_skips_later_key:
  "primary_key_cols ex_pair = [''a'', ''b'']
   \<and> valid_columns (get_current_columns ex_pair) [''c'', ''b''] = [''c'', ''b'']
   \<and> spec_batch_column (primary_key_cols ex_pair)
         (valid_columns (get_current_columns ex_pair) [''c'', ''b'']) = Some ''b''
   \<and> batch_column (primary_key_cols ex_pair)
         (valid_columns (get_current_columns ex_pair) [''c'', ''b'']) = Inr ''c''
   \<and> (min_value ex_pair ''c'', max_value ex_pair ''c'') = (SqlText ''x'', SqlText ''z'')
   \<and> drop_unused_columns [(''t'', ex_pair)] ''t'' [''c'', ''b''] 5 False False
       = Some \<lparr>outcome = Failed TypeError,
               database =
                 [(''t'', ex_pair),
                  (''t_new'',
                   \<lparr>columns =
                      [\<lparr>col_name = ''c'', col_type = ''TEXT'', notnull = 0,
                          dflt_value = None, pk = 0\<rparr>,
                       \<lparr>col_name = ''b'', col_type = ''INTEGER'', notnull = 1,
                          dflt_value = None, pk = 0\<rparr>],
                      rows = []\<rparr>)],
               processed_rows = 0\<rparr>
   \<and> execute (connect [(''t'', ex_pair)])
         (\<lambda>cat. sql_create_table cat ''t_new''
                  (map created_column (kept_rows ex_pair [''c'', ''b''])))
       = Inr ex_pair_copying
   \<and> (min_value ex_pair ''b'', max_value ex_pair ''b'') = (SqlInt 1, SqlInt 2)
   \<and> batch_loop ex_pair_copying ''t'' ''t_new'' [''c'', ''b''] ''b'' 5 (SqlInt 1) (SqlInt 2) 0
       = Some (Inr (\<lparr>committed =
                       [(''t'', ex_pair),
                        (''t_new'',
                         \<lparr>columns =
                            [\<lparr>col_name = ''c'', col_type = ''TEXT'', notnull = 0,
                                dflt_value = None, pk = 0\<rparr>,
                             \<lparr>col_name = ''b'', col_type = ''INTEGER'', notnull = 1,
                                dflt_value = None, pk = 0\<rparr>],
                            rows = [[SqlText ''x'', SqlInt 1], [SqlText ''y'', SqlInt 1],
                                    [SqlText ''z'', SqlInt 2]]\<rparr>)],
                     pending = None\<rparr>, 3))"
  by code_simp

text \<open>
  With a non-empty keep set the script batches on the table's first primary-key column
  when that column is kept, and otherwise on the first kept column. This is the choice
  the claim describes whenever the table has no primary key, its first primary-key
  column is kept, or none of its primary-key columns is kept; the two differ only when
  the first primary-key column is dropped and a later one is kept.
\<close>

lemma batch_column_choice:
  assumes "valid \<noteq> []"
  shows "batch_column pk_cols valid
           = Inr (if pk_cols \<noteq> [] \<and> hd pk_cols \<in> set valid then hd pk_cols else hd valid)
         \<and> (pk_cols = [] \<or> hd pk_cols \<in> set valid \<or> set pk_cols \<inter> set valid = {}
              \<longrightarrow> spec_batch_column pk_cols valid
                    = Some (if pk_cols \<noteq> [] \<and> hd pk_cols \<in> set valid then hd pk_cols
                            else hd valid))"
proof -
  obtain v vs where valid: "valid = v # vs" using assms by (cases valid) auto
  have code: "batch_column pk_cols valid
              = Inr (if pk_cols \<noteq> [] \<and> hd pk_cols \<in> set valid then hd pk_cols else hd valid)"
    by (cases pk_cols) (simp_all add: batch_column_def valid)
  have none: "filter (\<lambda>p. p \<in> set valid) pk_cols = []" if "set pk_cols \<inter> set valid = {}"
    using that by (auto simp: filter_empty_conv)
  have spec: "spec_batch_column pk_cols valid
              = Some (if pk_cols \<noteq> [] \<and> hd pk_cols \<in> set valid then hd pk_cols else hd valid)"
    if "pk_cols = [] \<or> hd pk_cols \<in> set valid \<or> set pk_cols \<inter> set valid = {}"
  proof (cases pk_cols)
    case Nil
    then show ?thesis by (simp add: spec_batch_column_def valid)
  next
    case (Cons p ps)
    show ?thesis
    proof (cases "p \<in> set valid")
      case True
      with Cons show ?thesis by (simp add: spec_batch_column_def)
    next
      case False
      with that Cons have "set pk_cols \<inter> set valid = {}" by simp
      from none[OF this] False Cons show ?thesis
        by (simp add: spec_batch_column_def valid)
    qed
  qed
  from code spec show ?thesis by blast
qed


section \<open>Rendering the kept columns\<close>

text \<open>
  Claim C9 at a table with a two-column key. The catalog marks both \<open>a\<close> (entry 1) and
  \<open>b\<close> (entry 2) as primary-key columns, and \<open>primary_key_cols\<close> lists both, but the
  rendered definition of \<open>b\<close> carries no \<^verbatim>\<open>PRIMARY KEY\<close>, and the one of \<open>a\<close>
  makes \<open>a\<close> alone the key of the new table.
\<close>

theorem composite_key_rendering:
  "map pk (columns ex_pair) = [1, 2, 0]
   \<and> primary_key_cols ex_pair = [''a'', ''b'']
   \<and> column_defs ex_pair [''a'', ''b'']
       = [''a INTEGER NOT NULL  PRIMARY KEY'', ''b INTEGER NOT NULL'']
   \<and> map pk (map created_column (kept_rows ex_pair [''a'', ''b''])) = [1, 0]"
  by code_simp



lemma kept_rows_Nil [simp]: "kept_rows t [] = []"
  by (simp add: kept_rows_def List.map_filter_def)



lemma created_column_name [simp]: "col_name (created_column row) = col_name row"
  by (simp add: created_column_def)

section \<open>Lookups in the database\<close>









section \<open>Values: comparison, smallest and largest\<close>

lemma sql_le_Int [simp]: "sql_le (SqlInt a) (SqlInt b) = Some (a \<le> b)"
  by (simp add: sql_le_def)

lemma py_le_Int [simp]: "py_le (SqlInt a) (SqlInt b) = Inr (a \<le> b)"
  by (simp add: py_le_def)

lemma in_range_Int [simp]: "in_range (SqlInt i) (SqlInt a) (SqlInt b) \<longleftrightarrow> a \<le> i \<and> i \<le> b"
  by (simp add: in_range_def)

lemma in_range_Null [simp]: "in_range SqlNull lo hi = False"
  by (simp add: in_range_def sql_le_def)

section \<open>One batch\<close>



lemma batch_step_Null [simp]:
  "batch_step conn tn new valid bc bs SqlNull = Inl (TypeError, conn)"
  by (simp add: batch_step_def)

lemma batch_step_Text [simp]:
  "batch_step conn tn new valid bc bs (SqlText s) = Inl (TypeError, conn)"
  by (simp add: batch_step_def)



lemma nth_bound_0 [simp]: "nth_bound lo bs 0 = lo"
  by (cases lo) (simp_all add: nth_bound_def)


lemma copied_0 [simp]: "copied t valid bc bs lo 0 = []"
  by (simp add: copied_def)








section \<open>The loop\<close>
















section \<open>The whole migration\<close>




lemma the_batch_column_eq:
  "batch_column (primary_key_cols t) valid = Inr c \<Longrightarrow> the_batch_column t valid = c"
  by (simp add: the_batch_column_def)





subsection \<open>An empty keep set\<close>

text \<open>
  Claim C7. When no requested column exists in the table and the table has columns to
  drop, the run fails and leaves the database as it was: no table without columns is
  created. The script has no error class of its own for this; the failure is the
  database's refusal of a \<^verbatim>\<open>CREATE TABLE\<close> with an empty column list, reported by
  the \<^verbatim>\<open>except\<close> clause (or, before that, a failed backup).
\<close>

theorem empty_keep_set_fails:
  assumes t: "map_of db tn = Some t"
    and keep: "valid_columns (get_current_columns t) keep = []"
    and drop: "columns_to_drop (get_current_columns t) keep \<noteq> []"
  shows "\<exists>r. drop_unused_columns db tn keep bs bk ok = Some r
             \<and> \<not> success r \<and> database r = db
             \<and> outcome r = (if bk \<and> \<not> ok then BackupFailed else Failed OperationalError)"
proof -
  have "sql_create_table db (tn @ ''_new'') (map created_column (kept_rows t [])) = Inl OperationalError"
    by (simp add: sql_create_table_def)
  then have "migrate (connect db) tn t [] bs = Some (Inl (OperationalError, connect db))"
    by (simp add: migrate_def execute_def view_def connect_def)
  with t keep drop show ?thesis
    by (simp add: drop_unused_columns_def success_def rollback_def connect_def)
qed

theorem empty_keep_set_fails_witness:
  "map_of [(''t'', ex_people)] ''t'' = Some ex_people
   \<and> valid_columns (get_current_columns ex_people) [''zzz''] = []
   \<and> columns_to_drop (get_current_columns ex_people) [''zzz''] = [''id'', ''surname'', ''notes'']
   \<and> (\<exists>r. drop_unused_columns [(''t'', ex_people)] ''t'' [''zzz''] 2 False False = Some r
          \<and> \<not> success r \<and> database r = [(''t'', ex_people)]
          \<and> outcome r = Failed OperationalError)"
proof -
  have h1: "map_of [(''t'', ex_people)] ''t'' = Some ex_people" by simp
  have h2: "valid_columns (get_current_columns ex_people) [''zzz''] = []" by code_simp
  have h3: "columns_to_drop (get_current_columns ex_people) [''zzz''] = [''id'', ''surname'', ''notes'']"
    by code_simp
  from h3 have h3': "columns_to_drop (get_current_columns ex_people) [''zzz''] \<noteq> []" by simp
  from empty_keep_set_fails[OF h1 h2 h3', of 2 False False] h1 h2 h3 show ?thesis by simp
qed

subsection \<open>The columns of the migrated table\<close>




subsection \<open>Rows copied by the batches\<close>



text \<open>
  Claim C2 at a table with a two-column key. Both key columns of \<open>ex_pair\<close> are kept
  and \<open>c\<close> is dropped; the batching column \<open>a\<close> holds an integer in every row,
  and the three rows have three different projections. The new table is created with
  \<open>a\<close> alone as its primary key, so the second row with \<open>a = 3\<close> is refused: with
  batches of size 1 the batch for 3 fails after the row with \<open>a = 1\<close> has been
  committed, with one batch for the whole range nothing is copied. In both runs the two
  rows with \<open>a = 3\<close> are never inserted and no row count is reported.
\<close>

theorem integer_batches_composite_key:
  "primary_key_cols ex_pair = [''a'', ''b'']
   \<and> valid_columns (get_current_columns ex_pair) [''a'', ''b''] = [''a'', ''b'']
   \<and> columns_to_drop (get_current_columns ex_pair) [''a'', ''b''] = [''c'']
   \<and> the_batch_column ex_pair [''a'', ''b''] = ''a''
   \<and> map (\<lambda>r. cell ex_pair r ''a'') (rows ex_pair) = [SqlInt 1, SqlInt 3, SqlInt 3]
   \<and> (min_value ex_pair ''a'', max_value ex_pair ''a'') = (SqlInt 1, SqlInt 3)
   \<and> map (project ex_pair [''a'', ''b'']) (rows ex_pair)
       = [[SqlInt 1, SqlInt 1], [SqlInt 3, SqlInt 1], [SqlInt 3, SqlInt 2]]
   \<and> count_rows ex_pair = 3
   \<and> drop_unused_columns [(''t'', ex_pair)] ''t'' [''a'', ''b''] 1 False False
       = Some \<lparr>outcome = Failed IntegrityError,
               database =
                 [(''t'', ex_pair),
                  (''t_new'',
                   \<lparr>columns =
                      [\<lparr>col_name = ''a'', col_type = ''INTEGER'', notnull = 1,
                          dflt_value = None, pk = 1\<rparr>,
                       \<lparr>col_name = ''b'', col_type = ''INTEGER'', notnull = 1,
                          dflt_value = None, pk = 0\<rparr>],
                      rows = [[SqlInt 1, SqlInt 1]]\<rparr>)],
               processed_rows = 0\<rparr>
   \<and> drop_unused_columns [(''t'', ex_pair)] ''t'' [''a'', ''b''] 100 False False
       = Some \<lparr>outcome = Failed IntegrityError,
               database =
                 [(''t'', ex_pair),
                  (''t_new'',
                   \<lparr>columns =
                      [\<lparr>col_name = ''a'', col_type = ''INTEGER'', notnull = 1,
                          dflt_value = None, pk = 1\<rparr>,
                       \<lparr>col_name = ''b'', col_type = ''INTEGER'', notnull = 1,
                          dflt_value = None, pk = 0\<rparr>],
                      rows = []\<rparr>)],
               processed_rows = 0\<rparr>"
  by code_simp



subsection \<open>Batch sizes\<close>

text \<open>
  Claim C3 at a table whose batching column holds the fractions 1/2 and 5/4: with
  batches of size 1 the only range tried is from 1/2 to 1/2 (the next lower bound, 3/2,
  is beyond the largest value), so the second row is not copied; with batches of size 2
  both rows are copied. The two runs succeed and leave different tables.
\<close>

theorem real_batches_depend_on_size:
  "drop_unused_columns [(''t'', ex_real)] ''t'' [''x''] 1 False False
     = Some \<lparr>outcome = Migrated,
             database =
               [(''t'',
                 \<lparr>columns = [\<lparr>col_name = ''x'', col_type = ''REAL'', notnull = 0,
                               dflt_value = None, pk = 0\<rparr>],
                    rows = [[SqlReal (1 / 2)]]\<rparr>)],
             processed_rows = 1\<rparr>
   \<and> drop_unused_columns [(''t'', ex_real)] ''t'' [''x''] 2 False False
     = Some \<lparr>outcome = Migrated,
             database =
               [(''t'',
                 \<lparr>columns = [\<lparr>col_name = ''x'', col_type = ''REAL'', notnull = 0,
                               dflt_value = None, pk = 0\<rparr>],
                    rows = [[SqlReal (1 / 2)], [SqlReal (5 / 4)]]\<rparr>)],
             processed_rows = 2\<rparr>"
  by code_simp

subsection \<open>Failure\<close>




end
